theory Spec2Isabelle
  imports Main "HOL-Library.Sublist"
begin

section \<open>Text and literal replacement\<close>

text \<open>
  The script \<^verbatim>\<open>update_html.py\<close> reads \<^verbatim>\<open>index.html\<close>, runs fifteen
  \<^verbatim>\<open>html = html.replace(old, new)\<close> statements on the text and writes the result back.
  A Python \<^verbatim>\<open>str\<close> is a sequence of Unicode code points, so a document is a list of
  code points (natural numbers); \<open>lit\<close> turns an ASCII literal of the source into such a list.
\<close>

type_synonym document = "nat list"

definition lit :: "string \<Rightarrow> document" where
  "lit s = map of_char s"

text \<open>
  \<^verbatim>\<open>str.replace(old, new)\<close> with the default count: scanning from the left, every
  position where \<open>old\<close> starts is replaced by \<open>new\<close> and the scan resumes behind the
  match, so the matches are the leftmost non-overlapping ones. With an empty \<open>old\<close>,
  Python puts \<open>new\<close> before every character and at the end.
\<close>

function replace :: "'a list \<Rightarrow> 'a list \<Rightarrow> 'a list \<Rightarrow> 'a list" where
  "replace old new [] = (if old = [] then new else [])"
| "replace old new (c # cs) =
     (if old = [] then new @ c # replace old new cs
      else if prefix old (c # cs) then new @ replace old new (drop (length old) (c # cs))
      else c # replace old new cs)"
  by pat_completeness auto
termination
  by (relation "measure (\<lambda>(old, new, xs). length xs)") auto

section \<open>The literals of the script\<close>

text \<open>Replace tooltip structure (line 7 of the script).\<close>

definition tooltip_structure_old :: document where
  \<open>tooltip_structure_old = lit ''<div id="universal-tooltip" class="universal-tooltip hidden">\<newline>            <div class="tooltip-title" id="tt-title"></div>\<newline>            <div class="tooltip-desc" id="tt-desc"></div>\<newline>        </div>''\<close>

definition tooltip_structure_new :: document where
  \<open>tooltip_structure_new = lit ''<div id="universal-tooltip" class="universal-tooltip hidden">\<newline>            <div class="tooltip-title" id="tt-title"></div>\<newline>            <div class="tooltip-line" id="tt-line1"></div>\<newline>            <div class="tooltip-line" id="tt-line2"></div>\<newline>            <div class="tooltip-line" id="tt-line3"></div>\<newline>        </div>''\<close>

text \<open>Replace Sector Stability (indented form) (line 21 of the script).\<close>

definition sector_stability_pretty_old :: document where
  \<open>sector_stability_pretty_old = lit ''data-tooltip="Sector Stability"\<newline>                                    data-tooltip-desc="Aggregated probabilistic risk score across KP segments."''\<close>

definition sector_stability_pretty_new :: document where
  \<open>sector_stability_pretty_new = lit ''data-tooltip="Sector Stability"\<newline>                                    data-tooltip-short="Aggregated probabilistic risk score." data-tooltip-tech="Derived from Bayesian risk modeling across KP segments."''\<close>

text \<open>Replace Sector Stability (single-line form) (line 27 of the script).\<close>

definition sector_stability_flat_old :: document where
  \<open>sector_stability_flat_old = lit ''data-tooltip="Sector Stability" data-tooltip-desc="Aggregated probabilistic risk score across KP segments."''\<close>

definition sector_stability_flat_new :: document where
  \<open>sector_stability_flat_new = lit ''data-tooltip="Sector Stability" data-tooltip-short="Aggregated probabilistic risk score." data-tooltip-tech="Derived from Bayesian risk modeling across KP segments."''\<close>

text \<open>Replace Hazard Engine (indented form) (line 33 of the script).\<close>

definition hazard_engine_pretty_old :: document where
  \<open>hazard_engine_pretty_old = lit ''data-tooltip="Hazard Engine"\<newline>                            data-tooltip-desc="Inject and simulate physical failure events."''\<close>

definition hazard_engine_pretty_new :: document where
  \<open>hazard_engine_pretty_new = lit ''data-tooltip="Hazard Engine"\<newline>                            data-tooltip-short="Inject simulated failure scenarios." data-tooltip-tech="Used to test system detection and response capability."''\<close>

text \<open>Replace Hazard Engine (single-line form) (line 39 of the script).\<close>

definition hazard_engine_flat_old :: document where
  \<open>hazard_engine_flat_old = lit ''data-tooltip="Hazard Engine" data-tooltip-desc="Inject and simulate physical failure events."''\<close>

definition hazard_engine_flat_new :: document where
  \<open>hazard_engine_flat_new = lit ''data-tooltip="Hazard Engine" data-tooltip-short="Inject simulated failure scenarios." data-tooltip-tech="Used to test system detection and response capability."''\<close>

text \<open>Bio-Energy Harvest (line 45 of the script).\<close>

definition bio_energy_harvest_old :: document where
  \<open>bio_energy_harvest_old = lit ''<span>BIO-ALGAE HARVEST</span>''\<close>

definition bio_energy_harvest_new :: document where
  \<open>bio_energy_harvest_new = lit ''<span class="neptune-tooltip" data-tooltip="Bio-Energy Harvest" data-tooltip-short="Marine algae-based supplemental energy system." data-tooltip-tech="Reduces reliance on external power sources.">BIO-ALGAE HARVEST</span>''\<close>

text \<open>AUV Fleet (line 51 of the script).\<close>

definition auv_fleet_old :: document where
  \<open>auv_fleet_old = lit ''<div class="accordion-item" data-panel="fleet-panel">''\<close>

definition auv_fleet_new :: document where
  \<open>auv_fleet_new = lit ''<div class="accordion-item neptune-tooltip" data-panel="fleet-panel" data-tooltip="AUV Fleet" data-tooltip-short="Monitor AUV battery, readiness, and mission status." data-tooltip-tech="Used to assess deployment capability.">''\<close>

text \<open>Isolation (indented form) (line 57 of the script).\<close>

definition isolation_pretty_old :: document where
  \<open>isolation_pretty_old = lit ''<button id="btn-approve-multi" class="btn critical-btn">Approve Isolation + Multi-AUV\<newline>                        Deployment</button>''\<close>

definition isolation_pretty_new :: document where
  \<open>isolation_pretty_new = lit ''<button id="btn-approve-multi" class="btn critical-btn neptune-tooltip" data-tooltip="Isolation Control" data-tooltip-short="Temporarily close upstream and downstream valves." data-tooltip-tech="Prevents escalation of structural damage." data-tooltip-use="Execute immediately upon critical threshold breach.">Approve Isolation + Multi-AUV \<newline>                        Deployment</button>''\<close>

text \<open>Isolation (single-line form) (line 63 of the script).\<close>

definition isolation_flat_old :: document where
  \<open>isolation_flat_old = lit ''<button id="btn-approve-multi" class="btn critical-btn">Approve Isolation + Multi-AUV Deployment</button>''\<close>

definition isolation_flat_new :: document where
  \<open>isolation_flat_new = lit ''<button id="btn-approve-multi" class="btn critical-btn neptune-tooltip" data-tooltip="Isolation Control" data-tooltip-short="Temporarily close upstream and downstream valves." data-tooltip-tech="Prevents escalation of structural damage." data-tooltip-use="Execute immediately upon critical threshold breach.">Approve Isolation + Multi-AUV Deployment</button>''\<close>

text \<open>Navigation Modes: Global Curvature Mode (line 69 of the script).\<close>

definition global_curvature_mode_old :: document where
  \<open>global_curvature_mode_old = lit ''data-tooltip="Global Curvature Mode" data-tooltip-desc="View the entire 1900km corridor."''\<close>

definition global_curvature_mode_new :: document where
  \<open>global_curvature_mode_new = lit ''data-tooltip="Global Curvature Mode" data-tooltip-short="Switch camera and system visualization modes." data-tooltip-tech="Changes operational view without affecting system logic." data-tooltip-use="View the entire 1900km corridor."''\<close>

text \<open>Navigation Modes: Sector Mode (indented form) (line 73 of the script).\<close>

definition sector_mode_pretty_old :: document where
  \<open>sector_mode_pretty_old = lit ''data-tooltip="Sector Mode"\<newline>                        data-tooltip-desc="Zoom to specific operating sectors."''\<close>

definition sector_mode_pretty_new :: document where
  \<open>sector_mode_pretty_new = lit ''data-tooltip="Sector Mode"\<newline>                        data-tooltip-short="Switch camera and system visualization modes." data-tooltip-tech="Changes operational view without affecting system logic." data-tooltip-use="Zoom to specific operating sectors."''\<close>

text \<open>Navigation Modes: Sector Mode (single-line form) (line 79 of the script).\<close>

definition sector_mode_flat_old :: document where
  \<open>sector_mode_flat_old = lit ''data-tooltip="Sector Mode" data-tooltip-desc="Zoom to specific operating sectors."''\<close>

definition sector_mode_flat_new :: document where
  \<open>sector_mode_flat_new = lit ''data-tooltip="Sector Mode" data-tooltip-short="Switch camera and system visualization modes." data-tooltip-tech="Changes operational view without affecting system logic." data-tooltip-use="Zoom to specific operating sectors."''\<close>

text \<open>Navigation Modes: Inspection Mode (indented form) (line 83 of the script).\<close>

definition inspection_mode_pretty_old :: document where
  \<open>inspection_mode_pretty_old = lit ''data-tooltip="Inspection Mode"\<newline>                        data-tooltip-desc="Close-up seabed visualization."''\<close>

definition inspection_mode_pretty_new :: document where
  \<open>inspection_mode_pretty_new = lit ''data-tooltip="Inspection Mode"\<newline>                        data-tooltip-short="Switch camera and system visualization modes." data-tooltip-tech="Changes operational view without affecting system logic." data-tooltip-use="Close-up seabed visualization."''\<close>

text \<open>Navigation Modes: Inspection Mode (single-line form) (line 89 of the script).\<close>

definition inspection_mode_flat_old :: document where
  \<open>inspection_mode_flat_old = lit ''data-tooltip="Inspection Mode" data-tooltip-desc="Close-up seabed visualization."''\<close>

definition inspection_mode_flat_new :: document where
  \<open>inspection_mode_flat_new = lit ''data-tooltip="Inspection Mode" data-tooltip-short="Switch camera and system visualization modes." data-tooltip-tech="Changes operational view without affecting system logic." data-tooltip-use="Close-up seabed visualization."''\<close>

text \<open>Replace all remaining data-tooltip-desc with data-tooltip-short (line 95 of the script).\<close>

definition marker_old :: document where
  \<open>marker_old = lit ''data-tooltip-desc''\<close>

definition marker_new :: document where
  \<open>marker_new = lit ''data-tooltip-short''\<close>

section \<open>The rewrite\<close>

text \<open>
  The body of the script between reading and writing the file: the variable \<open>html\<close> is
  reassigned fifteen times, every statement working on the value the one before it left.
\<close>

definition update_html :: "document \<Rightarrow> document" where
  "update_html html0 =
    (let
         html = replace tooltip_structure_old tooltip_structure_new html0;
         html = replace sector_stability_pretty_old sector_stability_pretty_new html;
         html = replace sector_stability_flat_old sector_stability_flat_new html;
         html = replace hazard_engine_pretty_old hazard_engine_pretty_new html;
         html = replace hazard_engine_flat_old hazard_engine_flat_new html;
         html = replace bio_energy_harvest_old bio_energy_harvest_new html;
         html = replace auv_fleet_old auv_fleet_new html;
         html = replace isolation_pretty_old isolation_pretty_new html;
         html = replace isolation_flat_old isolation_flat_new html;
         html = replace global_curvature_mode_old global_curvature_mode_new html;
         html = replace sector_mode_pretty_old sector_mode_pretty_new html;
         html = replace sector_mode_flat_old sector_mode_flat_new html;
         html = replace inspection_mode_pretty_old inspection_mode_pretty_new html;
         html = replace inspection_mode_flat_old inspection_mode_flat_new html;
         html = replace marker_old marker_new html
     in html)"

text \<open>The same statements as data: the (search literal, replacement literal) pairs, in program order.\<close>

definition specific_rules :: "(document \<times> document) list" where
  "specific_rules =
    [(tooltip_structure_old, tooltip_structure_new),
     (sector_stability_pretty_old, sector_stability_pretty_new),
     (sector_stability_flat_old, sector_stability_flat_new),
     (hazard_engine_pretty_old, hazard_engine_pretty_new),
     (hazard_engine_flat_old, hazard_engine_flat_new),
     (bio_energy_harvest_old, bio_energy_harvest_new),
     (auv_fleet_old, auv_fleet_new),
     (isolation_pretty_old, isolation_pretty_new),
     (isolation_flat_old, isolation_flat_new),
     (global_curvature_mode_old, global_curvature_mode_new),
     (sector_mode_pretty_old, sector_mode_pretty_new),
     (sector_mode_flat_old, sector_mode_flat_new),
     (inspection_mode_pretty_old, inspection_mode_pretty_new),
     (inspection_mode_flat_old, inspection_mode_flat_new)]"

definition sweep_rule :: "document \<times> document" where
  "sweep_rule = (marker_old, marker_new)"

definition rules :: "(document \<times> document) list" where
  "rules = specific_rules @ [sweep_rule]"

definition apply_rule :: "document \<times> document \<Rightarrow> document \<Rightarrow> document" where
  "apply_rule r doc = replace (fst r) (snd r) doc"

definition run_rules :: "(document \<times> document) list \<Rightarrow> document \<Rightarrow> document" where
  "run_rules rs doc = fold apply_rule rs doc"

section \<open>Replacement as the specification words it\<close>

text \<open>
  The specification describes a rule as replacing all leftmost non-overlapping occurrences of
  its search literal. This is written out apart from the scan above: find the first
  position where the literal occurs, keep the text before it, put the replacement, and go on
  behind the occurrence.
\<close>

fun first_occurrence :: "'a list \<Rightarrow> 'a list \<Rightarrow> nat option" where
  "first_occurrence old [] = (if old = [] then Some 0 else None)"
| "first_occurrence old (c # cs) =
     (if prefix old (c # cs) then Some 0 else map_option Suc (first_occurrence old cs))"

function replace_all_occurrences :: "'a list \<Rightarrow> 'a list \<Rightarrow> 'a list \<Rightarrow> 'a list" where
  "replace_all_occurrences old new xs =
     (if old = [] then replace old new xs
      else case first_occurrence old xs of
             None \<Rightarrow> xs
           | Some i \<Rightarrow> take i xs @ new @ replace_all_occurrences old new (drop (i + length old) xs))"
  by pat_completeness auto
termination
proof (relation "measure (\<lambda>(old, new, xs). length xs)")
  show "wf (measure (\<lambda>(old, new, xs). length xs))"
    by simp
next
  fix old new :: "'a list" and xs :: "'a list" and i :: nat
  assume "old \<noteq> []" and "first_occurrence old xs = Some i"
  then have "xs \<noteq> []" and "0 < i + length old"
    by auto
  then show "((old, new, drop (i + length old) xs), (old, new, xs))
      \<in> measure (\<lambda>(old, new, xs). length xs)"
    by simp
qed

declare replace_all_occurrences.simps [simp del]

definition run_rules_spec :: "(document \<times> document) list \<Rightarrow> document \<Rightarrow> document" where
  "run_rules_spec rs doc = fold (\<lambda>r acc. replace_all_occurrences (fst r) (snd r) acc) rs doc"

section \<open>Overlap of literals\<close>

text \<open>
  Two occurrences, one of \<open>a\<close> and one of \<open>b\<close>, can share text only if \<open>b\<close> starts at some
  position inside \<open>a\<close> or \<open>a\<close> starts inside \<open>b\<close>. \<open>compatible\<close> says that two texts agree
  as far as both reach (one is a prefix of the other); \<open>nostart a b\<close> says that \<open>b\<close> can
  start at no position of \<open>a\<close>.
\<close>

fun compatible :: "'a list \<Rightarrow> 'a list \<Rightarrow> bool" where
  "compatible [] ys = True"
| "compatible (x # xs) [] = True"
| "compatible (x # xs) (y # ys) = (x = y \<and> compatible xs ys)"

definition compat_if :: "bool \<Rightarrow> 'a list \<Rightarrow> 'a list \<Rightarrow> bool" where
  "compat_if b xs ys = (b \<and> compatible xs ys)"

fun nostart :: "'a list \<Rightarrow> 'a list \<Rightarrow> bool" where
  "nostart [] b = True"
| "nostart (c # cs) b = (\<not> compatible (c # cs) b \<and> nostart cs b)"

definition no_overlap :: "'a list \<Rightarrow> 'a list \<Rightarrow> bool" where
  "no_overlap a b = (nostart a b \<and> nostart b a)"

definition borderless :: "'a list \<Rightarrow> bool" where
  "borderless a = nostart (tl a) a"

section \<open>Attributes and white space\<close>

text \<open>The attribute text \<^verbatim>\<open>data-tooltip-desc="X"\<close> and its renamed form, for a value \<open>X\<close>.\<close>

definition desc_attr :: "document \<Rightarrow> document" where
  \<open>desc_attr X = marker_old @ lit ''="'' @ X @ lit ''"''\<close>

definition short_attr :: "document \<Rightarrow> document" where
  \<open>short_attr X = marker_new @ lit ''="'' @ X @ lit ''"''\<close>

text \<open>
  White space as HTML has it: space, tab, line feed, form feed and carriage return.
  \<open>squeeze\<close> turns every run of white space into one space, which is how much of the
  layout of a fragment matters to its content.
\<close>

definition is_space :: "nat \<Rightarrow> bool" where
  "is_space c = (c = 32 \<or> c = 9 \<or> c = 10 \<or> c = 12 \<or> c = 13)"

fun squeeze_from :: "bool \<Rightarrow> document \<Rightarrow> document" where
  "squeeze_from in_space [] = []"
| "squeeze_from in_space (c # cs) =
     (if is_space c then (if in_space then squeeze_from True cs else 32 # squeeze_from True cs)
      else c # squeeze_from False cs)"

definition squeeze :: "document \<Rightarrow> document" where
  "squeeze doc = squeeze_from False doc"

section \<open>Reading and writing the file\<close>

text \<open>
  The script opens \<^verbatim>\<open>index.html\<close> for reading as UTF-8 text, reads all of it, and after the
  replacements opens the same path for writing as UTF-8 text and writes the result. Neither
  \<^verbatim>\<open>with\<close> block is inside a \<^verbatim>\<open>try\<close>, so an exception of \<^verbatim>\<open>open\<close>,
  \<^verbatim>\<open>read\<close> or \<^verbatim>\<open>write\<close> ends the program where it is raised.

  The file system is a map from paths to files; a file has its bytes and whether the process
  may read and write it. The text layer of the Python runtime (decoding bytes to text and
  encoding text to bytes for a named encoding) is a parameter.
\<close>

type_synonym path = string
type_synonym bytes = string

datatype io_error = FileNotFound | PermissionDenied | EncodingError

record stored_file =
  content :: bytes
  readable :: bool
  writable :: bool

type_synonym filesystem = "path \<Rightarrow> stored_file option"

record runtime =
  decode :: "string \<Rightarrow> bytes \<Rightarrow> document option"
  encode :: "string \<Rightarrow> document \<Rightarrow> bytes option"

text \<open>\<^verbatim>\<open>with open(p, "r", encoding=enc) as f: html = f.read()\<close>\<close>

definition read_text :: "runtime \<Rightarrow> filesystem \<Rightarrow> path \<Rightarrow> string \<Rightarrow> io_error + document" where
  "read_text rt fs p enc =
     (case fs p of
        None \<Rightarrow> Inl FileNotFound
      | Some f \<Rightarrow>
          if \<not> readable f then Inl PermissionDenied
          else (case decode rt enc (content f) of
                  None \<Rightarrow> Inl EncodingError
                | Some txt \<Rightarrow> Inr txt))"

text \<open>
  \<^verbatim>\<open>with open(p, "w", encoding=enc) as f: f.write(txt)\<close>: opening for writing creates the
  file or empties it; a text that cannot be encoded leaves it empty.
\<close>

definition write_text ::
  "runtime \<Rightarrow> filesystem \<Rightarrow> path \<Rightarrow> string \<Rightarrow> document \<Rightarrow> io_error option \<times> filesystem" where
  "write_text rt fs p enc txt =
     (case fs p of
        None \<Rightarrow>
          (case encode rt enc txt of
             None \<Rightarrow> (Some EncodingError, fs(p \<mapsto> \<lparr>content = [], readable = True, writable = True\<rparr>))
           | Some bs \<Rightarrow> (None, fs(p \<mapsto> \<lparr>content = bs, readable = True, writable = True\<rparr>)))
      | Some f \<Rightarrow>
          if \<not> writable f then (Some PermissionDenied, fs)
          else (case encode rt enc txt of
                  None \<Rightarrow> (Some EncodingError, fs(p \<mapsto> f\<lparr>content := []\<rparr>))
                | Some bs \<Rightarrow> (None, fs(p \<mapsto> f\<lparr>content := bs\<rparr>))))"

text \<open>The arguments of the two \<^verbatim>\<open>open\<close> calls (lines 3 and 97 of the script).\<close>

definition read_path :: path where
  "read_path = ''index.html''"

definition read_encoding :: string where
  "read_encoding = ''utf-8''"

definition write_path :: path where
  "write_path = ''index.html''"

definition write_encoding :: string where
  "write_encoding = ''utf-8''"

text \<open>The whole script: the error raised, if any, and the file system it leaves.\<close>

definition run_script :: "runtime \<Rightarrow> filesystem \<Rightarrow> io_error option \<times> filesystem" where
  "run_script rt fs =
     (case read_text rt fs read_path read_encoding of
        Inl e \<Rightarrow> (Some e, fs)
      | Inr html \<Rightarrow> write_text rt fs write_path write_encoding (update_html html))"

section \<open>Properties\<close>

lemma update_html_run_rules: "update_html doc = run_rules rules doc"
  by (simp add: update_html_def run_rules_def rules_def specific_rules_def sweep_rule_def apply_rule_def)

subsection \<open>The scan and the first occurrence\<close>

lemma first_occurrence_None: "first_occurrence old xs = None \<Longrightarrow> replace old new xs = xs"
  by (induction xs) (auto split: if_splits)

lemma replace_all_occurrences_eq: "replace_all_occurrences old new xs = replace old new xs"
proof (induction old new xs rule: replace.induct)
  case (1 old new)
  then show ?case by (simp add: replace_all_occurrences.simps)
next
  case (2 old new c cs)
  show ?case
  proof (cases "old = []")
    case True
    then show ?thesis by (simp add: replace_all_occurrences.simps)
  next
    case ne: False
    show ?thesis
    proof (cases "prefix old (c # cs)")
      case True
      with ne 2 show ?thesis
        by (simp add: replace_all_occurrences.simps[of old new "c # cs"])
    next
      case False
      with ne 2 have IH: "replace_all_occurrences old new cs = replace old new cs" by simp
      show ?thesis
      proof (cases "first_occurrence old cs")
        case None
        with ne False show ?thesis
          by (simp add: replace_all_occurrences.simps[of old new "c # cs"] first_occurrence_None)
      next
        case (Some i)
        have "replace_all_occurrences old new cs
            = take i cs @ new @ replace_all_occurrences old new (drop (i + length old) cs)"
          using ne Some by (simp add: replace_all_occurrences.simps[of old new cs])
        with ne False Some IH show ?thesis
          by (simp add: replace_all_occurrences.simps[of old new "c # cs"])
      qed
    qed
  qed
qed

subsection \<open>Texts that agree as far as both reach\<close>

lemma compatible_iff: "compatible xs ys \<longleftrightarrow> prefix xs ys \<or> prefix ys xs"
  by (induction xs ys rule: compatible.induct) auto

lemma compatible_sym: "compatible xs ys \<Longrightarrow> compatible ys xs"
  by (auto simp: compatible_iff)

lemma prefix_append_compatible: "prefix s (a @ b) \<Longrightarrow> compatible s a"
  by (auto simp: compatible_iff prefix_append)

lemma nostart_drop: "nostart a b \<Longrightarrow> i < length a \<Longrightarrow> \<not> compatible (drop i a) b"
proof (induction a arbitrary: i)
  case Nil
  then show ?case by simp
next
  case (Cons c cs)
  then show ?case by (cases i) auto
qed

lemma nostart_tl: "nostart (c # cs) b \<Longrightarrow> nostart cs b"
  by simp

lemma nostart_head: "nostart (c # cs) b \<Longrightarrow> \<not> compatible (c # cs) b"
  by simp

lemma nostart_nonempty: "nostart a b \<Longrightarrow> a \<noteq> [] \<Longrightarrow> \<not> compatible a b"
  by (cases a) auto

lemma nostart_Nil_right: "nostart a [] \<Longrightarrow> a = []"
  by (cases a) auto

subsection \<open>Where a text can turn up in the result of a replacement\<close>

lemma prefix_replaceD:
  "old \<noteq> [] \<Longrightarrow> s \<noteq> [] \<Longrightarrow> nostart s new \<Longrightarrow> prefix s (replace old new xs)
   \<Longrightarrow> prefix s xs \<and> \<not> prefix old xs"
proof (induction old new xs arbitrary: s rule: replace.induct)
  case (1 old new)
  then show ?case by simp
next
  case (2 old new c cs)
  show ?case
  proof (cases "prefix old (c # cs)")
    case True
    with 2 have "prefix s (new @ replace old new (drop (length old) (c # cs)))" by simp
    then have "compatible s new" by (rule prefix_append_compatible)
    with nostart_nonempty[OF \<open>nostart s new\<close> \<open>s \<noteq> []\<close>] show ?thesis by simp
  next
    case False
    with 2 have p: "prefix s (c # replace old new cs)" by simp
    obtain s' where s: "s = c # s'" using p \<open>s \<noteq> []\<close> by (cases s) auto
    show ?thesis
    proof (cases "s' = []")
      case True
      with s False show ?thesis by simp
    next
      case ne: False
      have "nostart s' new" using \<open>nostart s new\<close> unfolding s by (rule nostart_tl)
      moreover have "prefix s' (replace old new cs)" using p s by simp
      ultimately have "prefix s' cs" using "2.IH"(3)[of s'] \<open>old \<noteq> []\<close> False ne by blast
      with s False show ?thesis by simp
    qed
  qed
qed

lemma sublist_appendD:
  "sublist s (a @ b) \<Longrightarrow> (\<exists>i<length a. prefix s (drop i a @ b)) \<or> sublist s b"
proof (induction a)
  case Nil
  then show ?case by simp
next
  case (Cons x a)
  from Cons.prems have "prefix s (x # a @ b) \<or> sublist s (a @ b)"
    by (simp add: sublist_Cons_right)
  then show ?case
  proof
    assume "prefix s (x # a @ b)"
    then have "0 < length (x # a) \<and> prefix s (drop 0 (x # a) @ b)" by simp
    then show ?thesis by blast
  next
    assume "sublist s (a @ b)"
    with Cons.IH have "(\<exists>i<length a. prefix s (drop i a @ b)) \<or> sublist s b" by blast
    then show ?thesis
    proof
      assume "\<exists>i<length a. prefix s (drop i a @ b)"
      then obtain i where "i < length a" "prefix s (drop i a @ b)" by blast
      then have "Suc i < length (x # a) \<and> prefix s (drop (Suc i) (x # a) @ b)" by simp
      then show ?thesis by blast
    qed blast
  qed
qed

lemma not_sublist_new_append:
  assumes "nostart new s" "\<not> sublist s ys"
  shows "\<not> sublist s (new @ ys)"
proof
  assume "sublist s (new @ ys)"
  with sublist_appendD assms(2) obtain i where i: "i < length new" "prefix s (drop i new @ ys)"
    by blast
  then have "compatible s (drop i new)" by (auto dest: prefix_append_compatible)
  then have "compatible (drop i new) s" by (rule compatible_sym)
  with nostart_drop[OF assms(1) i(1)] show False by simp
qed

lemma not_sublist_drop: "\<not> sublist s xs \<Longrightarrow> \<not> sublist s (drop n xs)"
  using sublist_order.order_trans[OF _ sublist_drop] by blast

lemma replace_creates_nothing:
  "old \<noteq> [] \<Longrightarrow> s \<noteq> [] \<Longrightarrow> no_overlap s new \<Longrightarrow> \<not> sublist s xs
   \<Longrightarrow> \<not> sublist s (replace old new xs)"
proof (induction old new xs rule: replace.induct)
  case (1 old new)
  then show ?case by simp
next
  case (2 old new c cs)
  from 2 have ns: "nostart s new" "nostart new s" by (auto simp: no_overlap_def)
  show ?case
  proof (cases "prefix old (c # cs)")
    case True
    have "\<not> sublist s (drop (length old) (c # cs))"
      using "2.prems"(4) by (rule not_sublist_drop)
    with 2 True have "\<not> sublist s (replace old new (drop (length old) (c # cs)))" by blast
    then have "\<not> sublist s (new @ replace old new (drop (length old) (c # cs)))"
      using not_sublist_new_append[OF ns(2)] by blast
    with True \<open>old \<noteq> []\<close> show ?thesis by simp
  next
    case False
    have "\<not> sublist s cs" using "2.prems"(4) by (auto simp: sublist_Cons_right)
    with 2 False have a: "\<not> sublist s (replace old new cs)" by blast
    have "\<not> prefix s (replace old new (c # cs))"
      using prefix_replaceD[OF \<open>old \<noteq> []\<close> \<open>s \<noteq> []\<close> ns(1)] "2.prems"(4)
      by (metis prefix_imp_sublist)
    with a False \<open>old \<noteq> []\<close> show ?thesis by (simp add: sublist_Cons_right)
  qed
qed

lemma replace_removes_old:
  "old \<noteq> [] \<Longrightarrow> no_overlap old new \<Longrightarrow> \<not> sublist old (replace old new xs)"
proof (induction old new xs rule: replace.induct)
  case (1 old new)
  then show ?case by simp
next
  case (2 old new c cs)
  from 2 have ns: "nostart old new" "nostart new old" by (auto simp: no_overlap_def)
  show ?case
  proof (cases "prefix old (c # cs)")
    case True
    with 2 have "\<not> sublist old (replace old new (drop (length old) (c # cs)))" by blast
    then have "\<not> sublist old (new @ replace old new (drop (length old) (c # cs)))"
      using not_sublist_new_append[OF ns(2)] by blast
    with True \<open>old \<noteq> []\<close> show ?thesis by simp
  next
    case False
    with 2 have a: "\<not> sublist old (replace old new cs)" by blast
    have "\<not> prefix old (replace old new (c # cs))"
      using prefix_replaceD[OF \<open>old \<noteq> []\<close> \<open>old \<noteq> []\<close> ns(1)] by blast
    with a False \<open>old \<noteq> []\<close> show ?thesis by (simp add: sublist_Cons_right)
  qed
qed

lemma replace_no_match: "\<not> sublist old xs \<Longrightarrow> replace old new xs = xs"
proof (induction old new xs rule: replace.induct)
  case (1 old new)
  then show ?case by auto
next
  case (2 old new c cs)
  from "2.prems" have "old \<noteq> []" by auto
  moreover from "2.prems" have "\<not> prefix old (c # cs)" by (auto dest: prefix_imp_sublist)
  moreover from "2.prems" have "\<not> sublist old cs" by (auto simp: sublist_Cons_right)
  ultimately show ?case using "2.IH"(3) by simp
qed

subsection \<open>A text that no match can touch stays where it is\<close>

lemma drop_append_le: "n \<le> length xs \<Longrightarrow> drop n (xs @ ys) = drop n xs @ ys"
  by simp

lemma replace_skips_prefix:
  "nostart t old \<Longrightarrow> t \<noteq> [] \<Longrightarrow> replace old new (t @ post) = t @ replace old new post"
proof (induction t)
  case Nil
  then show ?case by simp
next
  case (Cons c t)
  from Cons.prems have nc: "\<not> compatible (c # t) old" by simp
  then have "old \<noteq> []" by (cases old) auto
  have np: "\<not> prefix old ((c # t) @ post)"
    using nc prefix_append_compatible[of old "c # t" post] compatible_sym by blast
  show ?case
  proof (cases "t = []")
    case True
    with np \<open>old \<noteq> []\<close> show ?thesis by simp
  next
    case False
    with Cons have "replace old new (t @ post) = t @ replace old new post" by simp
    with np \<open>old \<noteq> []\<close> show ?thesis by simp
  qed
qed

lemma no_match_across:
  assumes "\<not> prefix old pre" "pre \<noteq> []" "\<And>i. 0 < i \<Longrightarrow> i < length old \<Longrightarrow> \<not> compatible (drop i old) t"
  shows "\<not> prefix old (pre @ t @ post)"
proof
  assume "prefix old (pre @ t @ post)"
  with assms(1) obtain us where us: "old = pre @ us" "prefix us (t @ post)"
    by (auto simp: prefix_append)
  with assms(1) have "us \<noteq> []" by auto
  with us assms(2) have "0 < length pre" "length pre < length old" "drop (length pre) old = us"
    by auto
  with assms(3)[of "length pre"] have "\<not> compatible us t" by simp
  with us(2) show False by (auto dest: prefix_append_compatible)
qed

lemma replace_keeps:
  "no_overlap t old \<Longrightarrow> t \<noteq> []
   \<Longrightarrow> replace old new (pre @ t @ post) = replace old new pre @ t @ replace old new post"
proof (induction old new pre rule: replace.induct)
  case (1 old new)
  then have "old \<noteq> []" by (cases t; cases old) (auto simp: no_overlap_def)
  with 1 show ?case by (simp add: replace_skips_prefix no_overlap_def)
next
  case (2 old new c cs)
  from 2 have ns: "nostart t old" "nostart old t" by (auto simp: no_overlap_def)
  from ns(1) \<open>t \<noteq> []\<close> have "old \<noteq> []" by (cases t; cases old) auto
  show ?case
  proof (cases "prefix old (c # cs)")
    case True
    then have "prefix old ((c # cs) @ t @ post)" by (rule prefix_prefix)
    moreover from True have "length old \<le> length (c # cs)" by (rule prefix_length_le)
    ultimately show ?thesis
      using 2 True \<open>old \<noteq> []\<close> drop_append_le[of "length old" "c # cs" "t @ post"] by simp
  next
    case False
    have "\<not> prefix old ((c # cs) @ t @ post)"
      using False nostart_drop[OF ns(2)] by (intro no_match_across) auto
    with False 2 \<open>old \<noteq> []\<close> show ?thesis by simp
  qed
qed

lemma borderless_drop: "borderless old \<Longrightarrow> 0 < i \<Longrightarrow> i < length old \<Longrightarrow> \<not> compatible (drop i old) old"
proof -
  assume b: "borderless old" and i: "0 < i" "i < length old"
  then obtain c cs where old: "old = c # cs" by (cases old) auto
  from i obtain j where j: "i = Suc j" by (cases i) auto
  from b old have "nostart cs old" by (simp add: borderless_def)
  from nostart_drop[OF this, of j] i j old show ?thesis by simp
qed

lemma replace_in_place:
  "borderless old \<Longrightarrow> old \<noteq> []
   \<Longrightarrow> replace old new (pre @ old @ post) = replace old new pre @ new @ replace old new post"
proof (induction old new pre rule: replace.induct)
  case (1 old new)
  then obtain c cs where "old = c # cs" by (cases old) auto
  then show ?case by simp
next
  case (2 old new c cs)
  show ?case
  proof (cases "prefix old (c # cs)")
    case True
    then have "prefix old ((c # cs) @ old @ post)" by (rule prefix_prefix)
    moreover from True have "length old \<le> length (c # cs)" by (rule prefix_length_le)
    ultimately show ?thesis
      using 2 True drop_append_le[of "length old" "c # cs" "old @ post"] by simp
  next
    case False
    have "\<not> prefix old ((c # cs) @ old @ post)"
      using False borderless_drop[OF \<open>borderless old\<close>] by (intro no_match_across) auto
    with False 2 show ?thesis by simp
  qed
qed

subsection \<open>Lists of rules\<close>

lemma run_rules_Nil: "run_rules [] d = d"
  by (simp add: run_rules_def)

lemma run_rules_Cons: "run_rules (r # rs) d = run_rules rs (replace (fst r) (snd r) d)"
  by (simp add: run_rules_def apply_rule_def)

lemma run_rules_append: "run_rules (xs @ ys) d = run_rules ys (run_rules xs d)"
  by (simp add: run_rules_def)

lemma run_rules_empty: "list_all (\<lambda>r. fst r \<noteq> []) rs \<Longrightarrow> run_rules rs [] = []"
  by (induction rs) (simp_all add: run_rules_Nil run_rules_Cons)

lemma run_rules_no_match: "list_all (\<lambda>r. \<not> sublist (fst r) d) rs \<Longrightarrow> run_rules rs d = d"
  by (induction rs) (simp_all add: run_rules_Nil run_rules_Cons replace_no_match)

lemma run_rules_creates_nothing:
  "s \<noteq> [] \<Longrightarrow> list_all (\<lambda>r. fst r \<noteq> [] \<and> no_overlap s (snd r)) rs \<Longrightarrow> \<not> sublist s d
   \<Longrightarrow> \<not> sublist s (run_rules rs d)"
proof (induction rs arbitrary: d)
  case Nil
  then show ?case by (simp add: run_rules_Nil)
next
  case (Cons r rs)
  from Cons.prems have "\<not> sublist s (replace (fst r) (snd r) d)"
    by (intro replace_creates_nothing) auto
  with Cons show ?case by (simp add: run_rules_Cons)
qed

lemma run_rules_removes:
  assumes "k < length rs" "rs ! k = (old, new)" "old \<noteq> []" "no_overlap old new"
    and "list_all (\<lambda>r. fst r \<noteq> [] \<and> no_overlap old (snd r)) (drop (Suc k) rs)"
  shows "\<not> sublist old (run_rules rs d)"
proof -
  have rs: "rs = take k rs @ (old, new) # drop (Suc k) rs"
    using assms(1,2) id_take_nth_drop by fastforce
  have "\<not> sublist old (replace old new (run_rules (take k rs) d))"
    using assms(3,4) by (rule replace_removes_old)
  then have "\<not> sublist old (run_rules (drop (Suc k) rs) (replace old new (run_rules (take k rs) d)))"
    using assms(3,5) by (intro run_rules_creates_nothing)
  then have "\<not> sublist old (run_rules (take k rs @ (old, new) # drop (Suc k) rs) d)"
    by (simp add: run_rules_append run_rules_Cons)
  with rs show ?thesis by simp
qed

lemma run_rules_keeps:
  "t \<noteq> [] \<Longrightarrow> list_all (\<lambda>r. no_overlap t (fst r)) rs
   \<Longrightarrow> run_rules rs (pre @ t @ post) = run_rules rs pre @ t @ run_rules rs post"
proof (induction rs arbitrary: pre post)
  case Nil
  then show ?case by (simp add: run_rules_Nil)
next
  case (Cons r rs)
  from Cons.prems have "replace (fst r) (snd r) (pre @ t @ post)
      = replace (fst r) (snd r) pre @ t @ replace (fst r) (snd r) post"
    by (intro replace_keeps) auto
  with Cons show ?case by (simp add: run_rules_Cons)
qed

lemma run_rules_in_place:
  assumes "k < length rs" "rs ! k = (old, new)" "old \<noteq> []" "new \<noteq> []" "borderless old"
    and "list_all (\<lambda>r. no_overlap old (fst r)) (take k rs)"
    and "list_all (\<lambda>r. no_overlap new (fst r)) (drop (Suc k) rs)"
  shows "run_rules rs (pre @ old @ post) = run_rules rs pre @ new @ run_rules rs post"
proof -
  let ?b = "take k rs" and ?a = "drop (Suc k) rs"
  have rs: "rs = ?b @ (old, new) # ?a"
    using assms(1,2) id_take_nth_drop by fastforce
  have "run_rules (?b @ (old, new) # ?a) (pre @ old @ post)
      = run_rules ?a (replace old new (run_rules ?b pre @ old @ run_rules ?b post))"
    using assms(3,6) by (simp add: run_rules_append run_rules_Cons run_rules_keeps)
  also have "\<dots> = run_rules ?a (replace old new (run_rules ?b pre) @ new
      @ replace old new (run_rules ?b post))"
    using assms(3,5) by (simp add: replace_in_place)
  also have "\<dots> = run_rules ?a (replace old new (run_rules ?b pre)) @ new
      @ run_rules ?a (replace old new (run_rules ?b post))"
    using assms(4,7) by (simp add: run_rules_keeps)
  also have "\<dots> = run_rules (?b @ (old, new) # ?a) pre @ new @ run_rules (?b @ (old, new) # ?a) post"
    by (simp add: run_rules_append run_rules_Cons)
  finally show ?thesis using rs by simp
qed

subsection \<open>Literals\<close>

lemma lit_Nil: "lit [] = []"
  by (simp add: lit_def)

lemma lit_Cons: "lit (c # cs) = of_char c # lit cs"
  by (simp add: lit_def)

lemma lit_append: "lit (a @ b) = lit a @ lit b"
  by (simp add: lit_def)

lemma lit_eq_iff: "lit a = lit b \<longleftrightarrow> a = b"
  unfolding lit_def by (rule inj_map_eq_map[OF inj_of_char])

lemma lit_eq_Nil: "lit a = [] \<longleftrightarrow> a = []"
  by (simp add: lit_def)

lemma length_lit: "length (lit a) = length a"
  by (simp add: lit_def)

lemma tl_lit: "tl (lit a) = lit (tl a)"
  by (simp add: lit_def map_tl)

lemma in_set_lit: "of_char c \<in> set (lit a) \<longleftrightarrow> c \<in> set a"
  by (auto simp: lit_def)

lemma prefix_lit: "prefix (lit a) (lit b) \<longleftrightarrow> prefix a b"
proof (induction a arbitrary: b)
  case Nil
  then show ?case by (simp add: lit_Nil)
next
  case (Cons c a)
  then show ?case by (cases b) (simp_all add: lit_Nil lit_Cons)
qed

lemma sublist_lit: "sublist (lit a) (lit b) \<longleftrightarrow> sublist a b"
proof (induction b)
  case Nil
  then show ?case by (simp add: lit_Nil lit_eq_Nil)
next
  case (Cons c b)
  have "prefix (lit a) (lit (c # b)) \<longleftrightarrow> prefix a (c # b)" by (rule prefix_lit)
  with Cons show ?case by (simp add: sublist_Cons_right lit_Cons)
qed

lemma compatible_lit: "compatible (lit a) (lit b) \<longleftrightarrow> compatible a b"
  by (simp add: compatible_iff prefix_lit)

lemma nostart_lit: "nostart (lit a) (lit b) \<longleftrightarrow> nostart a b"
proof (induction a)
  case Nil
  then show ?case by (simp add: lit_Nil)
next
  case (Cons c a)
  have "compatible (lit (c # a)) (lit b) \<longleftrightarrow> compatible (c # a) b" by (rule compatible_lit)
  with Cons show ?case by (simp add: lit_Cons)
qed

lemma no_overlap_lit: "no_overlap (lit a) (lit b) \<longleftrightarrow> no_overlap a b"
  by (simp add: no_overlap_def nostart_lit)

lemma borderless_lit: "borderless (lit a) \<longleftrightarrow> borderless a"
  by (simp add: borderless_def tl_lit nostart_lit)

text \<open>Comparing two texts stops at the first character that differs.\<close>

lemma compatible_eval:
  "compatible (x # xs) (y # ys) = compat_if (x = y) xs ys"
  "compat_if True xs ys = compatible xs ys"
  "compat_if False xs ys = False"
  by (simp_all add: compat_if_def)

lemmas literal_defs =
  tooltip_structure_old_def tooltip_structure_new_def
  sector_stability_pretty_old_def sector_stability_pretty_new_def
  sector_stability_flat_old_def sector_stability_flat_new_def
  hazard_engine_pretty_old_def hazard_engine_pretty_new_def
  hazard_engine_flat_old_def hazard_engine_flat_new_def
  bio_energy_harvest_old_def bio_energy_harvest_new_def
  auv_fleet_old_def auv_fleet_new_def
  isolation_pretty_old_def isolation_pretty_new_def
  isolation_flat_old_def isolation_flat_new_def
  global_curvature_mode_old_def global_curvature_mode_new_def
  sector_mode_pretty_old_def sector_mode_pretty_new_def
  sector_mode_flat_old_def sector_mode_flat_new_def
  inspection_mode_pretty_old_def inspection_mode_pretty_new_def
  inspection_mode_flat_old_def inspection_mode_flat_new_def
  marker_old_def marker_new_def

lemmas rule_defs = rules_def specific_rules_def sweep_rule_def

lemmas overlap_eval = no_overlap_def borderless_def tl_lit nostart_lit lit_eq_Nil compatible_eval

subsection \<open>Every context-specific rule rewrites an occurrence where it stands\<close>

lemma tooltip_structure_in_place:
  "update_html (pre @ tooltip_structure_old @ post) = update_html pre @ tooltip_structure_new @ update_html post"
  unfolding update_html_run_rules
  by (rule run_rules_in_place[where k = 0])
    (simp_all add: rule_defs literal_defs overlap_eval del: compatible.simps(3))

lemma sector_stability_pretty_in_place:
  "update_html (pre @ sector_stability_pretty_old @ post) = update_html pre @ sector_stability_pretty_new @ update_html post"
  unfolding update_html_run_rules
  by (rule run_rules_in_place[where k = 1])
    (simp_all add: rule_defs literal_defs overlap_eval del: compatible.simps(3))

lemma sector_stability_flat_in_place:
  "update_html (pre @ sector_stability_flat_old @ post) = update_html pre @ sector_stability_flat_new @ update_html post"
  unfolding update_html_run_rules
  by (rule run_rules_in_place[where k = 2])
    (simp_all add: rule_defs literal_defs overlap_eval del: compatible.simps(3))

lemma hazard_engine_pretty_in_place:
  "update_html (pre @ hazard_engine_pretty_old @ post) = update_html pre @ hazard_engine_pretty_new @ update_html post"
  unfolding update_html_run_rules
  by (rule run_rules_in_place[where k = 3])
    (simp_all add: rule_defs literal_defs overlap_eval del: compatible.simps(3))

lemma hazard_engine_flat_in_place:
  "update_html (pre @ hazard_engine_flat_old @ post) = update_html pre @ hazard_engine_flat_new @ update_html post"
  unfolding update_html_run_rules
  by (rule run_rules_in_place[where k = 4])
    (simp_all add: rule_defs literal_defs overlap_eval del: compatible.simps(3))

lemma bio_energy_harvest_in_place:
  "update_html (pre @ bio_energy_harvest_old @ post) = update_html pre @ bio_energy_harvest_new @ update_html post"
  unfolding update_html_run_rules
  by (rule run_rules_in_place[where k = 5])
    (simp_all add: rule_defs literal_defs overlap_eval del: compatible.simps(3))

lemma auv_fleet_in_place:
  "update_html (pre @ auv_fleet_old @ post) = update_html pre @ auv_fleet_new @ update_html post"
  unfolding update_html_run_rules
  by (rule run_rules_in_place[where k = 6])
    (simp_all add: rule_defs literal_defs overlap_eval del: compatible.simps(3))

lemma isolation_pretty_in_place:
  "update_html (pre @ isolation_pretty_old @ post) = update_html pre @ isolation_pretty_new @ update_html post"
  unfolding update_html_run_rules
  by (rule run_rules_in_place[where k = 7])
    (simp_all add: rule_defs literal_defs overlap_eval del: compatible.simps(3))

lemma isolation_flat_in_place:
  "update_html (pre @ isolation_flat_old @ post) = update_html pre @ isolation_flat_new @ update_html post"
  unfolding update_html_run_rules
  by (rule run_rules_in_place[where k = 8])
    (simp_all add: rule_defs literal_defs overlap_eval del: compatible.simps(3))

lemma global_curvature_mode_in_place:
  "update_html (pre @ global_curvature_mode_old @ post) = update_html pre @ global_curvature_mode_new @ update_html post"
  unfolding update_html_run_rules
  by (rule run_rules_in_place[where k = 9])
    (simp_all add: rule_defs literal_defs overlap_eval del: compatible.simps(3))

lemma sector_mode_pretty_in_place:
  "update_html (pre @ sector_mode_pretty_old @ post) = update_html pre @ sector_mode_pretty_new @ update_html post"
  unfolding update_html_run_rules
  by (rule run_rules_in_place[where k = 10])
    (simp_all add: rule_defs literal_defs overlap_eval del: compatible.simps(3))

lemma sector_mode_flat_in_place:
  "update_html (pre @ sector_mode_flat_old @ post) = update_html pre @ sector_mode_flat_new @ update_html post"
  unfolding update_html_run_rules
  by (rule run_rules_in_place[where k = 11])
    (simp_all add: rule_defs literal_defs overlap_eval del: compatible.simps(3))

lemma inspection_mode_pretty_in_place:
  "update_html (pre @ inspection_mode_pretty_old @ post) = update_html pre @ inspection_mode_pretty_new @ update_html post"
  unfolding update_html_run_rules
  by (rule run_rules_in_place[where k = 12])
    (simp_all add: rule_defs literal_defs overlap_eval del: compatible.simps(3))

lemma inspection_mode_flat_in_place:
  "update_html (pre @ inspection_mode_flat_old @ post) = update_html pre @ inspection_mode_flat_new @ update_html post"
  unfolding update_html_run_rules
  by (rule run_rules_in_place[where k = 13])
    (simp_all add: rule_defs literal_defs overlap_eval del: compatible.simps(3))

subsection \<open>No search literal is left in the output\<close>

lemma tooltip_structure_removed: "\<not> sublist tooltip_structure_old (update_html d)"
  unfolding update_html_run_rules
  by (rule run_rules_removes[where k = 0 and new = tooltip_structure_new])
    (simp_all add: rule_defs literal_defs overlap_eval del: compatible.simps(3))

lemma marker_in_sector_stability_pretty: "sublist marker_old sector_stability_pretty_old"
  by (simp add: literal_defs sublist_lit sublist_Cons_right)

lemma marker_in_sector_stability_flat: "sublist marker_old sector_stability_flat_old"
  by (simp add: literal_defs sublist_lit sublist_Cons_right)

lemma marker_in_hazard_engine_pretty: "sublist marker_old hazard_engine_pretty_old"
  by (simp add: literal_defs sublist_lit sublist_Cons_right)

lemma marker_in_hazard_engine_flat: "sublist marker_old hazard_engine_flat_old"
  by (simp add: literal_defs sublist_lit sublist_Cons_right)

lemma bio_energy_harvest_removed: "\<not> sublist bio_energy_harvest_old (update_html d)"
  unfolding update_html_run_rules
  by (rule run_rules_removes[where k = 5 and new = bio_energy_harvest_new])
    (simp_all add: rule_defs literal_defs overlap_eval del: compatible.simps(3))

lemma auv_fleet_removed: "\<not> sublist auv_fleet_old (update_html d)"
  unfolding update_html_run_rules
  by (rule run_rules_removes[where k = 6 and new = auv_fleet_new])
    (simp_all add: rule_defs literal_defs overlap_eval del: compatible.simps(3))

lemma isolation_pretty_removed: "\<not> sublist isolation_pretty_old (update_html d)"
  unfolding update_html_run_rules
  by (rule run_rules_removes[where k = 7 and new = isolation_pretty_new])
    (simp_all add: rule_defs literal_defs overlap_eval del: compatible.simps(3))

lemma isolation_flat_removed: "\<not> sublist isolation_flat_old (update_html d)"
  unfolding update_html_run_rules
  by (rule run_rules_removes[where k = 8 and new = isolation_flat_new])
    (simp_all add: rule_defs literal_defs overlap_eval del: compatible.simps(3))

lemma marker_in_global_curvature_mode: "sublist marker_old global_curvature_mode_old"
  by (simp add: literal_defs sublist_lit sublist_Cons_right)

lemma marker_in_sector_mode_pretty: "sublist marker_old sector_mode_pretty_old"
  by (simp add: literal_defs sublist_lit sublist_Cons_right)

lemma marker_in_sector_mode_flat: "sublist marker_old sector_mode_flat_old"
  by (simp add: literal_defs sublist_lit sublist_Cons_right)

lemma marker_in_inspection_mode_pretty: "sublist marker_old inspection_mode_pretty_old"
  by (simp add: literal_defs sublist_lit sublist_Cons_right)

lemma marker_in_inspection_mode_flat: "sublist marker_old inspection_mode_flat_old"
  by (simp add: literal_defs sublist_lit sublist_Cons_right)

lemma marker_removed: "\<not> sublist marker_old (update_html d)"
  unfolding update_html_run_rules
  by (rule run_rules_removes[where k = 14 and new = marker_new])
    (simp_all add: rule_defs literal_defs overlap_eval del: compatible.simps(3))

subsection \<open>What is left of the search literals\<close>

lemma not_sublist_trans: "sublist m x \<Longrightarrow> \<not> sublist m d \<Longrightarrow> \<not> sublist x d"
  using sublist_order.order_trans by blast

lemmas marker_in_old =
  marker_in_sector_stability_pretty marker_in_sector_stability_flat
  marker_in_hazard_engine_pretty marker_in_hazard_engine_flat
  marker_in_global_curvature_mode
  marker_in_sector_mode_pretty marker_in_sector_mode_flat
  marker_in_inspection_mode_pretty marker_in_inspection_mode_flat

lemma no_search_literal_left: "list_all (\<lambda>r. \<not> sublist (fst r) (update_html doc)) rules"
  by (simp add: rule_defs tooltip_structure_removed bio_energy_harvest_removed auv_fleet_removed
      isolation_pretty_removed isolation_flat_removed marker_removed
      marker_in_old[THEN not_sublist_trans, OF marker_removed])

lemma apply_rule_spec: "apply_rule = (\<lambda>r acc. replace_all_occurrences (fst r) (snd r) acc)"
  by (intro ext) (simp add: apply_rule_def replace_all_occurrences_eq)

section \<open>The claims\<close>

text \<open>
  C1. The rewrite is idempotent: running the whole sequence of replacements on its own
  output gives that output again, and every single rule leaves the output of a first run
  as it is.
\<close>

theorem update_html_idempotent:
  "update_html (update_html doc) = update_html doc
   \<and> list_all (\<lambda>r. apply_rule r (update_html doc) = update_html doc) rules"
proof
  show "update_html (update_html doc) = update_html doc"
    using no_search_literal_left[of doc]
    by (subst update_html_run_rules) (rule run_rules_no_match)
  show "list_all (\<lambda>r. apply_rule r (update_html doc) = update_html doc) rules"
    using no_search_literal_left[of doc]
    by (rule list.pred_mono_strong) (simp add: apply_rule_def replace_no_match)
qed

text \<open>
  C3. The output of the program is the fold of the ordered list of (search literal,
  replacement literal) pairs over the document, every rule replacing all leftmost
  non-overlapping occurrences of its search literal in the text the rule before it left.
\<close>

theorem update_html_is_fold_of_rules:
  "update_html doc = fold (\<lambda>r acc. replace_all_occurrences (fst r) (snd r) acc) rules doc"
  by (simp add: update_html_run_rules run_rules_def apply_rule_spec)

text \<open>
  C10. The output never contains \<^verbatim>\<open>data-tooltip-desc\<close>: the rule that renames it is the
  last one of the list, it leaves no occurrence behind, and its replacement text cannot
  form a new occurrence together with the text around it.
\<close>

theorem no_desc_marker_in_output:
  "\<not> sublist marker_old (update_html doc)
   \<and> last rules = (marker_old, marker_new)
   \<and> \<not> sublist marker_old (replace marker_old marker_new doc)"
proof (intro conjI)
  show "\<not> sublist marker_old (update_html doc)"
    by (rule marker_removed)
  show "last rules = (marker_old, marker_new)"
    by (simp add: rule_defs)
  show "\<not> sublist marker_old (replace marker_old marker_new doc)"
    by (rule replace_removes_old)
      (simp_all add: literal_defs overlap_eval del: compatible.simps(3))
qed

end
